theory Spec2Isabelle
  imports Complex_Main
begin

section \<open>Common types\<close>

text \<open>
  The two exception classes thrown by the code: \<^verbatim>\<open>std::invalid_argument\<close> and
  \<^verbatim>\<open>std::out_of_range\<close>.  A function that may throw returns \<open>exn + 'a\<close>, with
  \<open>Inl\<close> for the exception.  Scalars (\<^verbatim>\<open>double\<close>) are modelled by \<open>real\<close>: the
  operations used below are copying, zero, negation and, for the block algebra, exact
  addition and subtraction.
\<close>

datatype exn = invalid_argument | out_of_range

type_synonym Key = nat
type_synonym Vector = "real list"
type_synonym Matrix = "real list list"

section \<open>VectorValues\<close>

text \<open>
  \<^verbatim>\<open>ConcurrentMap<Key, Vector> values_\<close>: an ordered map with unique keys, kept as an
  association list in key order.
\<close>

type_synonym VectorValues = "(Key \<times> Vector) list"

definition invar :: "VectorValues \<Rightarrow> bool" where
  "invar vs = sorted_wrt (<) (map fst vs)"

definition find_vv :: "VectorValues \<Rightarrow> Key \<Rightarrow> Vector option" where
  "find_vv vs j = map_of vs j"

definition exists :: "VectorValues \<Rightarrow> Key \<Rightarrow> bool" where
  "exists vs j = (find_vv vs j \<noteq> None)"

definition at_vv :: "VectorValues \<Rightarrow> Key \<Rightarrow> exn + Vector" where
  "at_vv vs j = (case find_vv vs j of None \<Rightarrow> Inl out_of_range | Some item \<Rightarrow> Inr item)"

definition size_vv :: "VectorValues \<Rightarrow> nat" where
  "size_vv vs = length vs"

definition dim_vv :: "VectorValues \<Rightarrow> Key \<Rightarrow> exn + nat" where
  "dim_vv vs j = (case at_vv vs j of Inl e \<Rightarrow> Inl e | Inr v \<Rightarrow> Inr (length v))"

text \<open>
  \<^verbatim>\<open>values_.insert(key_value)\<close> of the map: the container afterwards and the flag that
  says whether the pair went in.
\<close>

definition values_insert :: "VectorValues \<Rightarrow> Key \<times> Vector \<Rightarrow> VectorValues \<times> bool" where
  "values_insert vs key_value =
     (if map_of vs (fst key_value) \<noteq> None then (vs, False)
      else (insort_key fst key_value vs, True))"

definition insert_vv :: "VectorValues \<Rightarrow> Key \<times> Vector \<Rightarrow> exn + VectorValues" where
  "insert_vv vs key_value =
     (let result = values_insert vs key_value
      in if \<not> snd result then Inl invalid_argument else Inr (fst result))"

text \<open>
  \<^verbatim>\<open>values_.unsafe_erase(var)\<close> of the map: the container afterwards and the number of
  entries removed.
\<close>

definition unsafe_erase :: "VectorValues \<Rightarrow> Key \<Rightarrow> VectorValues \<times> nat" where
  "unsafe_erase vs var =
     (filter (\<lambda>p. fst p \<noteq> var) vs, length (filter (\<lambda>p. fst p = var) vs))"

definition erase :: "VectorValues \<Rightarrow> Key \<Rightarrow> exn + VectorValues" where
  "erase vs var =
     (let r = unsafe_erase vs var
      in if snd r = 0 then Inl invalid_argument else Inr (fst r))"

text \<open>
  Write access \<^verbatim>\<open>at(j) = v\<close> to a block that exists: the block of key \<open>j\<close> is
  replaced, nothing else changes.
\<close>

definition assign :: "VectorValues \<Rightarrow> Key \<Rightarrow> Vector \<Rightarrow> VectorValues" where
  "assign vs j v = map (\<lambda>p. if fst p = j then (j, v) else p) vs"

text \<open>
  Modelled from the spec: \<^verbatim>\<open>VectorValues::update\<close> is declared in VectorValues.h and
  defined in VectorValues.cpp, which is not among the sources.  The spec: for every key in
  \<open>other\<close>, overwrite this container's block with \<open>other\<close>'s; fails with NotFound
  (\<^verbatim>\<open>std::out_of_range\<close> in the header's comment) if any key in \<open>other\<close> is absent
  here; does not add new keys.
\<close>

fun update :: "VectorValues \<Rightarrow> VectorValues \<Rightarrow> exn + VectorValues" where
  "update vs [] = Inr vs"
| "update vs (key_value # rest) =
     (if exists vs (fst key_value)
      then update (assign vs (fst key_value) (snd key_value)) rest
      else Inl out_of_range)"

text \<open>
  Modelled from the spec: \<^verbatim>\<open>VectorValues::Zero\<close> is declared in VectorValues.h and
  defined in VectorValues.cpp, which is not among the sources.  The spec: a new
  BlockVector with identical structure to \<open>other\<close>, all entries zero.
\<close>

definition Zero :: "VectorValues \<Rightarrow> VectorValues" where
  "Zero other = map (\<lambda>v. (fst v, replicate (length (snd v)) 0)) other"

text \<open>
  Modelled from the spec: the structure of a BlockVector, which the spec defines as its
  set of keys with the vector dimension of each key; here the list of (key, dimension)
  pairs in key order.  No function of this name is in VectorValues.h.
\<close>

definition "structure" :: "VectorValues \<Rightarrow> (Key \<times> nat) list" where
  "structure vs = map (\<lambda>p. (fst p, length (snd p))) vs"

text \<open>
  Modelled from the spec: \<^verbatim>\<open>VectorValues::hasSameStructure\<close> is declared in
  VectorValues.h and defined in VectorValues.cpp, which is not among the sources.  The
  spec: two BlockVectors have the same structure iff they contain exactly the same set of
  keys and, for each shared key, identical vector dimension.  On containers in key order
  this is equality of the lists of (key, dimension) pairs (lemma
  \<open>hasSameStructure_iff\<close> below).
\<close>

definition hasSameStructure :: "VectorValues \<Rightarrow> VectorValues \<Rightarrow> bool" where
  "hasSameStructure a other = (structure a = structure other)"

text \<open>
  Modelled from the spec: \<^verbatim>\<open>VectorValues::add\<close> (\<^verbatim>\<open>operator+\<close>) is declared in
  VectorValues.h and defined in VectorValues.cpp, which is not among the sources.  The
  spec: it assumes matching structure and executes as independent per-block operations.
  Both containers are walked in key order, block by block; what happens on containers of
  different structure is left open by the spec (a contract violation), and the model stops
  at the shorter one.
\<close>

definition add :: "VectorValues \<Rightarrow> VectorValues \<Rightarrow> VectorValues" where
  "add a c = map2 (\<lambda>j1 j2. (fst j1, map2 (+) (snd j1) (snd j2))) a c"

text \<open>
  Modelled from the spec: \<^verbatim>\<open>VectorValues::subtract\<close> (\<^verbatim>\<open>operator-\<close>) is declared in
  VectorValues.h and defined in VectorValues.cpp, which is not among the sources.  The
  spec: as for \<open>add\<close>, an independent per-block operation on containers of matching
  structure.
\<close>

definition subtract :: "VectorValues \<Rightarrow> VectorValues \<Rightarrow> VectorValues" where
  "subtract a c = map2 (\<lambda>j1 j2. (fst j1, map2 (-) (snd j1) (snd j2))) a c"

section \<open>VerticalBlockMatrix and JacobianMap\<close>

text \<open>
  Modelled from the spec: \<^verbatim>\<open>VerticalBlockMatrix\<close> (the spec's BlockMatrix) is used by
  ExpressionFactor.h and declared in a header that is not among the sources.  The spec: a
  single matrix of fixed row dimension partitioned into contiguous column blocks, one per
  key in a fixed key order, plus (for a linear factor) exactly one trailing single-column
  block for the right-hand side.  The matrix is a list of rows; \<open>variableColOffsets\<close>
  holds the first column of every block and, last, the total number of columns.
\<close>

record VerticalBlockMatrix =
  matrix :: Matrix
  variableColOffsets :: "nat list"

text \<open>
  Modelled from the spec: the column offsets of the blocks, computed by the constructor of
  \<^verbatim>\<open>VerticalBlockMatrix\<close> (not among the sources) from the block widths: blocks are
  contiguous, so each starts where the one before ends.
\<close>

fun colOffsets :: "nat \<Rightarrow> nat list \<Rightarrow> nat list" where
  "colOffsets acc [] = [acc]"
| "colOffsets acc (d # ds) = acc # colOffsets (acc + d) ds"

text \<open>
  Modelled from the spec: the constructor \<^verbatim>\<open>VerticalBlockMatrix(dimensions, height)\<close>
  (not among the sources), with the flag that appends the single-column block for the
  right-hand side.  It allocates a matrix of \<open>height\<close> rows and (sum of widths, plus one
  when the flag is set) columns and does not initialise it: \<open>uninit r c\<close> is whatever the
  fresh memory holds at row \<open>r\<close>, column \<open>c\<close>.
\<close>

definition VerticalBlockMatrix_ctor ::
  "nat list \<Rightarrow> nat \<Rightarrow> bool \<Rightarrow> (nat \<Rightarrow> nat \<Rightarrow> real) \<Rightarrow> VerticalBlockMatrix" where
  "VerticalBlockMatrix_ctor dimensions height appendOneDimension uninit =
     (let offsets = colOffsets 0 (if appendOneDimension then dimensions @ [1] else dimensions)
      in \<lparr>matrix = map (\<lambda>r. map (uninit r) [0..<last offsets]) [0..<height],
          variableColOffsets = offsets\<rparr>)"

text \<open>
  Modelled from the spec: \<^verbatim>\<open>Ab.matrix().setZero()\<close>, of the matrix library (not among
  the sources); the spec: the BlockMatrix is zeroed.
\<close>

definition setZero :: "VerticalBlockMatrix \<Rightarrow> VerticalBlockMatrix" where
  "setZero Ab = Ab\<lparr>matrix := map (map (\<lambda>_. 0)) (matrix Ab)\<rparr>"

text \<open>
  Modelled from the spec: \<^verbatim>\<open>Ab(i)\<close> of \<^verbatim>\<open>VerticalBlockMatrix\<close> (not among the
  sources), the column block \<open>i\<close> as a matrix.  A block index beyond the last block is a
  contract violation and is never reached from the factor code below on a constructed
  factor.
\<close>

definition block :: "VerticalBlockMatrix \<Rightarrow> nat \<Rightarrow> Matrix" where
  "block Ab i =
     (let lo = variableColOffsets Ab ! i; hi = variableColOffsets Ab ! (i + 1)
      in map (\<lambda>row. take (hi - lo) (drop lo row)) (matrix Ab))"

text \<open>
  Modelled from the spec: reading \<^verbatim>\<open>Ab(i).col(c)\<close>, column \<open>c\<close> of block \<open>i\<close>.
\<close>

definition getCol :: "VerticalBlockMatrix \<Rightarrow> nat \<Rightarrow> nat \<Rightarrow> Vector" where
  "getCol Ab i c = map (\<lambda>row. row ! (variableColOffsets Ab ! i + c)) (matrix Ab)"

text \<open>
  Modelled from the spec: the assignment \<^verbatim>\<open>Ab(i).col(c) = v\<close>; row \<open>r\<close> of the column
  receives \<open>v ! r\<close>.  The library requires \<open>v\<close> to have one entry per row.
\<close>

definition setCol :: "VerticalBlockMatrix \<Rightarrow> nat \<Rightarrow> nat \<Rightarrow> Vector \<Rightarrow> VerticalBlockMatrix" where
  "setCol Ab i c v =
     (let lo = variableColOffsets Ab ! i
      in Ab\<lparr>matrix := map (\<lambda>(r, row). if r < length v then row[lo + c := v ! r] else row)
                         (enumerate 0 (matrix Ab))\<rparr>)"

text \<open>
  Modelled from the spec: \<^verbatim>\<open>Ab(i) += J\<close>, the write the evaluator performs on a block
  (ExpressionFactor.h: "Zero out Jacobian so we can simply add to it").  Every entry of block \<open>i\<close> that \<open>J\<close> covers receives the entry of
  \<open>J\<close> added to it; entries outside the block are not touched.
\<close>

definition addBlock :: "VerticalBlockMatrix \<Rightarrow> nat \<Rightarrow> Matrix \<Rightarrow> VerticalBlockMatrix" where
  "addBlock Ab i J =
     (let lo = variableColOffsets Ab ! i; hi = variableColOffsets Ab ! (i + 1)
      in Ab\<lparr>matrix :=
            map (\<lambda>(r, row).
                  map (\<lambda>(c, a). if lo \<le> c \<and> c < hi \<and> r < length J \<and> c - lo < length (J ! r)
                                then a + J ! r ! (c - lo) else a)
                      (enumerate 0 row))
                (enumerate 0 (matrix Ab))\<rparr>)"

text \<open>
  Modelled from the spec: \<^verbatim>\<open>JacobianMap(keys, Ab)\<close> is declared in Expression.h, which is
  not among the sources.  It hands the evaluator the block of \<open>Ab\<close> that belongs to a
  key, found by the position of the key in \<open>keys\<close> (\<open>index_of\<close>).
\<close>

fun index_of :: "Key list \<Rightarrow> Key \<Rightarrow> nat option" where
  "index_of [] k = None"
| "index_of (j # js) k = (if j = k then Some 0 else map_option Suc (index_of js k))"

text \<open>
  Modelled from the spec: one write of the evaluator through the \<^verbatim>\<open>JacobianMap\<close>: the
  Jacobian \<open>snd kJ\<close> is added to the block of the key \<open>fst kJ\<close>.  A key that is not in
  \<open>ks\<close> has no block of its own and nothing is written for it.
\<close>

definition addJacobian :: "Key list \<Rightarrow> Key \<times> Matrix \<Rightarrow> VerticalBlockMatrix \<Rightarrow> VerticalBlockMatrix" where
  "addJacobian ks kJ Ab =
     (case index_of ks (fst kJ) of None \<Rightarrow> Ab | Some i \<Rightarrow> addBlock Ab i (snd kJ))"

section \<open>Collaborators of ExpressionFactor\<close>

text \<open>
  Modelled from the spec: \<^verbatim>\<open>Expression<T>\<close> is declared in Expression.h, which is not
  among the sources.  The spec: it supplies \<^verbatim>\<open>value(assignment)\<close> and
  \<^verbatim>\<open>value(assignment, blockMatrix)\<close>, the latter filling Jacobian blocks as a side
  effect of the same evaluation \<open>h(assignment)\<close>, plus the ordered list of (key, width)
  pairs it depends on; the evaluation engine returns a value and a map of per-key Jacobian
  blocks, and an evaluation failure (a key missing from the assignment) propagates as an
  exception.  \<open>evaluate e x\<close> is that one evaluation: the exception, or the value with the
  Jacobian blocks in the order they are produced.
\<close>

record ('v, 't) Expression =
  keyDims :: "(Key \<times> nat) list"
  evaluate :: "'v \<Rightarrow> exn + 't \<times> (Key \<times> Matrix) list"

text \<open>
  Modelled from the spec: \<^verbatim>\<open>expression.keysAndDims()\<close> (Expression.h, not among the
  sources), the keys and the widths of the (key, width) list as two vectors of the same
  length.
\<close>

definition keysAndDims :: "('v, 't) Expression \<Rightarrow> Key list \<times> nat list" where
  "keysAndDims e = (map fst (keyDims e), map snd (keyDims e))"

text \<open>
  Modelled from the spec: \<^verbatim>\<open>expression.value(x)\<close> (Expression.h, not among the
  sources), the value of the evaluation.
\<close>

definition expr_value :: "('v, 't) Expression \<Rightarrow> 'v \<Rightarrow> exn + 't" where
  "expr_value e x = (case evaluate e x of Inl err \<Rightarrow> Inl err | Inr r \<Rightarrow> Inr (fst r))"

text \<open>
  Modelled from the spec: \<^verbatim>\<open>expression.value(x, map)\<close> with
  \<^verbatim>\<open>map = JacobianMap(ks, Ab)\<close> (Expression.h, not among the sources): the value of the
  same evaluation, and the block matrix after the Jacobians have been added to it.
\<close>

definition expr_value_jac ::
  "('v, 't) Expression \<Rightarrow> 'v \<Rightarrow> Key list \<Rightarrow> VerticalBlockMatrix \<Rightarrow> exn + 't \<times> VerticalBlockMatrix" where
  "expr_value_jac e x ks Ab =
     (case evaluate e x of Inl err \<Rightarrow> Inl err
      | Inr r \<Rightarrow> Inr (fst r, fold (addJacobian ks) (snd r) Ab))"

text \<open>
  The measurement type \<open>T\<close> enters through \<^verbatim>\<open>traits::dimension<T>::value\<close> and
  \<^verbatim>\<open>DefaultChart<T>::local\<close>, both declared outside the sources; they are taken as
  parameters.
\<close>

record 't Chart =
  Dim :: nat
  chart_local :: "'t \<Rightarrow> 't \<Rightarrow> Vector"

text \<open>
  The noise model is used through \<^verbatim>\<open>dim()\<close>, \<^verbatim>\<open>is_constrained()\<close>,
  \<^verbatim>\<open>WhitenSystem(A, b)\<close> (in place on both arguments: the model returns both) and, on a
  constrained model, \<^verbatim>\<open>unit()\<close>; the class is declared outside the sources and these are
  taken as parameters.  \<open>'u\<close> is the type of the model that \<^verbatim>\<open>unit()\<close> returns.
\<close>

record 'u NoiseModel =
  dim :: nat
  is_constrained :: bool
  WhitenSystem :: "Matrix \<Rightarrow> Vector \<Rightarrow> Matrix \<times> Vector"
  unit :: 'u

text \<open>
  The class hierarchy: \<^verbatim>\<open>Factor\<close> holds the keys, \<^verbatim>\<open>NonlinearFactor\<close> has the virtual
  predicate \<^verbatim>\<open>active\<close>, \<^verbatim>\<open>NoiseModelFactor\<close> holds the noise model (a pointer that
  is not null once the constructor of ExpressionFactor has returned).
\<close>

record Factor =
  keys :: "Key list"

text \<open>
  Modelled from the spec: \<^verbatim>\<open>Factor::size()\<close> (not among the sources), the number of
  keys.
\<close>

definition size_factor :: "'a Factor_scheme \<Rightarrow> nat" where
  "size_factor f = length (keys f)"

record 'v NonlinearFactor = Factor +
  active :: "'v \<Rightarrow> bool"

record ('v, 'u) NoiseModelFactor = "'v NonlinearFactor" +
  noiseModel :: "'u NoiseModel"

text \<open>
  Modelled from the spec: \<^verbatim>\<open>JacobianFactor\<close> (the spec's LinearFactor) is declared in a
  header that is not among the sources.  The spec: Jacobian blocks keyed by variable plus a
  right-hand-side vector, held in one BlockMatrix of (sum of block widths + 1) columns.
  A factor built without a model has none.
\<close>

record 'u JacobianFactor = Factor +
  Ab :: VerticalBlockMatrix
  model :: "'u option"

text \<open>
  Modelled from the spec: the constructor \<^verbatim>\<open>JacobianFactor(keys, dims, m, model)\<close> (not
  among the sources); it allocates the BlockMatrix of \<open>m\<close> rows with the
  right-hand-side column appended.  \<^verbatim>\<open>JacobianFactor(keys, dims, m)\<close> is the call with
  \<open>None\<close> for the model.
\<close>

definition JacobianFactor_ctor ::
  "Key list \<Rightarrow> nat list \<Rightarrow> nat \<Rightarrow> 'u option \<Rightarrow> (nat \<Rightarrow> nat \<Rightarrow> real) \<Rightarrow> 'u JacobianFactor" where
  "JacobianFactor_ctor ks dims m mdl uninit =
     \<lparr>keys = ks, Ab = VerticalBlockMatrix_ctor dims m True uninit, model = mdl\<rparr>"

text \<open>
  Modelled from the spec: the right-hand-side vector of the factor, the single column of
  the block after the last key.
\<close>

definition getb :: "'u JacobianFactor \<Rightarrow> Vector" where
  "getb factor = getCol (Ab factor) (size_factor factor) 0"

section \<open>ExpressionFactor\<close>

record ('v, 't, 'u) ExpressionFactor = "('v, 'u) NoiseModelFactor" +
  measurement :: 't
  expression :: "('v, 't) Expression"
  dimensions :: "nat list"
  augmentedCols :: nat

text \<open>
  The constructor.  \<open>T\<close> stands for the template argument, \<open>act\<close> for the virtual
  \<^verbatim>\<open>active\<close> of the object, and \<open>None\<close> for a null noise-model pointer.
\<close>

definition ExpressionFactor_ctor ::
  "'t Chart \<Rightarrow> ('v \<Rightarrow> bool) \<Rightarrow> 'u NoiseModel option \<Rightarrow> 't \<Rightarrow> ('v, 't) Expression
   \<Rightarrow> exn + ('v, 't, 'u) ExpressionFactor" where
  "ExpressionFactor_ctor T act noiseModel0 measurement0 expression0 =
     (case noiseModel0 of
        None \<Rightarrow> Inl invalid_argument
      | Some nm \<Rightarrow>
          if dim nm \<noteq> Dim T then Inl invalid_argument
          else
            let kd = keysAndDims expression0
            in Inr \<lparr>keys = fst kd, active = act, noiseModel = nm,
                    measurement = measurement0, expression = expression0,
                    dimensions = snd kd, augmentedCols = foldl (+) 1 (snd kd)\<rparr>)"

text \<open>
  The loop \<^verbatim>\<open>for i < size(): H->at(i) = Ab(i)\<close>; \<^verbatim>\<open>H->at(i)\<close> throws
  \<^verbatim>\<open>std::out_of_range\<close> on a vector that is too short.
\<close>

fun copyBlocks :: "VerticalBlockMatrix \<Rightarrow> nat list \<Rightarrow> Matrix list \<Rightarrow> exn + Matrix list" where
  "copyBlocks A [] H = Inr H"
| "copyBlocks A (i # rest) H =
     (if i < length H then copyBlocks A rest (H[i := block A i]) else Inl out_of_range)"

text \<open>
  \<open>unwhitenedError\<close> returns the residual and, when Jacobians were requested, the
  buffer \<open>H\<close> as the call leaves it.  The \<^verbatim>\<open>assert\<close> on the size of \<open>H\<close> is a
  debug-build check and is not part of the model.
\<close>

definition unwhitenedError ::
  "'t Chart \<Rightarrow> (nat \<Rightarrow> nat \<Rightarrow> real) \<Rightarrow> ('v, 't, 'u) ExpressionFactor \<Rightarrow> 'v \<Rightarrow> Matrix list option
   \<Rightarrow> exn + Vector \<times> Matrix list option" where
  "unwhitenedError T uninit f x H =
     (case H of
        Some H0 \<Rightarrow>
          (let Ab0 = VerticalBlockMatrix_ctor (dimensions f) (Dim T) False uninit;
               Ab1 = setZero Ab0
           in case expr_value_jac (expression f) x (keys f) Ab1 of
                Inl err \<Rightarrow> Inl err
              | Inr r \<Rightarrow>
                  (case copyBlocks (snd r) [0..<size_factor f] H0 of
                     Inl err \<Rightarrow> Inl err
                   | Inr H1 \<Rightarrow> Inr (chart_local T (measurement f) (fst r), Some H1)))
      | None \<Rightarrow>
          (case expr_value (expression f) x of
             Inl err \<Rightarrow> Inl err
           | Inr v \<Rightarrow> Inr (chart_local T (measurement f) v, None)))"

text \<open>
  \<open>linearize\<close> returns \<open>Inr None\<close> for the null pointer.  \<open>dummy\<close> is the
  uninitialised vector handed to \<^verbatim>\<open>WhitenSystem\<close> together with the matrix.
\<close>

definition linearize ::
  "'t Chart \<Rightarrow> (nat \<Rightarrow> nat \<Rightarrow> real) \<Rightarrow> Vector \<Rightarrow> ('v, 't, 'u) ExpressionFactor \<Rightarrow> 'v
   \<Rightarrow> exn + 'u JacobianFactor option" where
  "linearize T uninit dummy f x =
     (if \<not> active f x then Inr None
      else
        let constrained = is_constrained (noiseModel f);
            factor =
              (if constrained
               then JacobianFactor_ctor (keys f) (dimensions f) (Dim T)
                      (Some (unit (noiseModel f))) uninit
               else JacobianFactor_ctor (keys f) (dimensions f) (Dim T) None uninit);
            Ab1 = setZero (Ab factor)
        in case expr_value_jac (expression f) x (keys f) Ab1 of
             Inl err \<Rightarrow> Inl err
           | Inr r \<Rightarrow>
               (let Ab2 = setCol (snd r) (size_factor f) 0
                            (map uminus (chart_local T (measurement f) (fst r)));
                    Ab3 = Ab2\<lparr>matrix := fst (WhitenSystem (noiseModel f) (matrix Ab2) dummy)\<rparr>
                in Inr (Some (factor\<lparr>Ab := Ab3\<rparr>))))"

section \<open>The identity-expression scenario\<close>

text \<open>
  The scenario of the spec's testable properties: the identity expression \<open>h(x) = x\<close>
  over the single real-vector key 0 of dimension 2, whose Jacobian is the identity matrix,
  with the vector-space chart \<open>local(z, y) = y - z\<close>, and a noise model of dimension 2
  whose whitening leaves the system as it is.  An assignment is a VectorValues.
\<close>

definition identityExpression :: "(VectorValues, Vector) Expression" where
  "identityExpression =
     \<lparr>keyDims = [(0, 2)],
      evaluate = (\<lambda>x. case at_vv x 0 of Inl err \<Rightarrow> Inl err
                       | Inr v \<Rightarrow> Inr (v, [(0, [ [1, 0], [0, 1] ])]))\<rparr>"

definition vectorChart :: "Vector Chart" where
  "vectorChart = \<lparr>Dim = 2, chart_local = (\<lambda>z y. map2 (-) y z)\<rparr>"

definition unitNoise :: "bool \<Rightarrow> string NoiseModel" where
  "unitNoise c = \<lparr>dim = 2, is_constrained = c, WhitenSystem = (\<lambda>A b. (A, b)),
                  unit = ''unit''\<rparr>"

section \<open>Properties of VectorValues\<close>

lemma map_of_insort_key_fresh:
  "map_of vs j = None \<Longrightarrow> map_of (insort_key fst (j, v) vs) j = Some v"
  by (induction vs) auto

lemma map_of_filter_neq: "map_of (filter (\<lambda>p. fst p \<noteq> var) vs) var = None"
  by (induction vs) auto

lemma filter_eq_empty_iff_absent:
  "(length (filter (\<lambda>p. fst p = var) vs) = 0) = (map_of vs var = None)"
  by (induction vs) auto

text \<open>
  C7.  \<open>insert\<close> of a key that is already present throws \<^verbatim>\<open>std::invalid_argument\<close>;
  \<open>insert\<close> of a key that is not present succeeds, and \<open>at\<close> on that key then returns
  the inserted vector unchanged.
\<close>

theorem insert_duplicate_or_at:
  "(exists vs j \<longrightarrow> insert_vv vs (j, v) = Inl invalid_argument) \<and>
   (\<not> exists vs j \<longrightarrow> (\<exists>vs'. insert_vv vs (j, v) = Inr vs' \<and> at_vv vs' j = Inr v))"
  by (simp add: exists_def find_vv_def insert_vv_def values_insert_def at_vv_def
      map_of_insort_key_fresh)

theorem insert_duplicate_or_at_witness:
  "exists [(0, [1, 2, 3]), (1, [4, 5])] 1 \<and>
   insert_vv [(0, [1, 2, 3]), (1, [4, 5])] (1, [7]) = Inl invalid_argument \<and>
   \<not> exists [(0, [1, 2, 3]), (3, [4, 5])] 2 \<and>
   (\<exists>vs'. insert_vv [(0, [1, 2, 3]), (3, [4, 5])] (2, [7]) = Inr vs' \<and> at_vv vs' 2 = Inr [7])"
  using insert_duplicate_or_at [of "[(0, [1, 2, 3]), (1, [4, 5])]" 1 "[7]"]
    insert_duplicate_or_at [of "[(0, [1, 2, 3]), (3, [4, 5])]" 2 "[7]"]
  by (simp add: exists_def find_vv_def)

text \<open>
  C5.  On a container that does not hold the key, \<open>erase\<close> throws
  \<^verbatim>\<open>std::invalid_argument\<close>, while \<open>at\<close> on the same absent key throws
  \<^verbatim>\<open>std::out_of_range\<close>: the two exception classes differ.
\<close>

theorem erase_absent_throws_invalid_argument:
  "erase [] 0 = Inl invalid_argument \<and> at_vv [] 0 = Inl out_of_range"
  by (simp add: erase_def unsafe_erase_def at_vv_def find_vv_def)

lemma erase_present_or_absent:
  "(\<not> exists vs var \<longrightarrow> erase vs var = Inl invalid_argument) \<and>
   (exists vs var \<longrightarrow> (\<exists>vs'. erase vs var = Inr vs' \<and> \<not> exists vs' var))"
  using filter_eq_empty_iff_absent [of var vs]
  by (auto simp: erase_def unsafe_erase_def exists_def find_vv_def Let_def map_of_filter_neq)

lemma map_fst_assign: "map fst (assign vs j v) = map fst vs"
  by (induction vs) (auto simp: assign_def)

lemma map_of_assign:
  "map_of (assign vs j v) k = (if k = j \<and> map_of vs j \<noteq> None then Some v else map_of vs k)"
  by (induction vs) (auto simp: assign_def)

lemma exists_assign: "exists (assign vs j v) k = exists vs k"
  by (simp add: exists_def find_vv_def map_of_assign)

lemma exists_Nil: "exists [] k = False"
  by (simp add: exists_def find_vv_def)

lemma exists_Cons: "exists (p # rest) k = (k = fst p \<or> exists rest k)"
  by (cases p) (simp add: exists_def find_vv_def)

lemma update_fails_iff:
  "(update vs other = Inl e) = (e = out_of_range \<and> (\<exists>k. exists other k \<and> \<not> exists vs k))"
proof (induction other arbitrary: vs)
  case Nil
  then show ?case by (simp add: exists_Nil)
next
  case (Cons p rest)
  show ?case
  proof (cases "exists vs (fst p)")
    case True
    then have "(\<exists>k. exists (p # rest) k \<and> \<not> exists vs k) = (\<exists>k. exists rest k \<and> \<not> exists vs k)"
      by (auto simp: exists_Cons)
    with True Cons.IH [of "assign vs (fst p) (snd p)"] show ?thesis
      by (simp add: exists_assign)
  next
    case False
    then have "\<exists>k. exists (p # rest) k \<and> \<not> exists vs k"
      by (auto simp: exists_Cons)
    with False show ?thesis by auto
  qed
qed

lemma update_keys: "update vs other = Inr vs' \<Longrightarrow> map fst vs' = map fst vs"
proof (induction other arbitrary: vs)
  case Nil
  then show ?case by simp
next
  case (Cons p rest)
  then show ?case
    by (auto simp: map_fst_assign split: if_splits)
qed

lemma update_find:
  "invar other \<Longrightarrow> update vs other = Inr vs' \<Longrightarrow>
   find_vv vs' k = (if exists other k then find_vv other k else find_vv vs k)"
proof (induction other arbitrary: vs)
  case Nil
  then show ?case by (simp add: exists_def find_vv_def)
next
  case (Cons p rest)
  from Cons.prems(1) have inv: "invar rest" and fresh: "map_of rest (fst p) = None"
    by (auto simp: invar_def map_of_eq_None_iff)
  from Cons.prems(2) have ex: "exists vs (fst p)"
    and upd: "update (assign vs (fst p) (snd p)) rest = Inr vs'"
    by (auto split: if_splits)
  from Cons.IH [OF inv upd] ex fresh show ?case
    by (cases p) (auto simp: exists_def find_vv_def map_of_assign)
qed

lemma map2_add_commute: "map2 (+) (u::real list) w = map2 (+) w u"
  by (induction u w rule: list_induct2') (simp_all add: add.commute)

lemma map2_add_sub: "length u = length w \<Longrightarrow> map2 (-) (map2 (+) (u::real list) w) w = u"
  by (induction u w rule: list_induct2) auto

lemma add_commute_vv: "hasSameStructure a b \<Longrightarrow> add a b = add b a"
proof (induction a arbitrary: b)
  case Nil
  then show ?case by (simp add: add_def hasSameStructure_def structure_def)
next
  case (Cons p a)
  then obtain q b' where b: "b = q # b'" by (cases b) (auto simp: hasSameStructure_def structure_def)
  with Cons.prems have "fst p = fst q" and "hasSameStructure a b'"
    by (auto simp: hasSameStructure_def structure_def)
  with Cons.IH [of b'] b show ?case
    by (simp add: add_def map2_add_commute)
qed

lemma sub_add_vv: "hasSameStructure a b \<Longrightarrow> subtract (add a b) b = a"
proof (induction a arbitrary: b)
  case Nil
  then show ?case by (simp add: add_def subtract_def hasSameStructure_def structure_def)
next
  case (Cons p a)
  then obtain q b' where b: "b = q # b'" by (cases b) (auto simp: hasSameStructure_def structure_def)
  with Cons.prems have "length (snd p) = length (snd q)" and "hasSameStructure a b'"
    by (auto simp: hasSameStructure_def structure_def)
  with Cons.IH [of b'] b show ?case
    by (simp add: add_def subtract_def map2_add_sub)
qed

lemma dim_vv_Cons:
  "dim_vv (p # vs) k = (if k = fst p then Inr (length (snd p)) else dim_vv vs k)"
  by (cases p) (simp add: dim_vv_def at_vv_def find_vv_def)

lemma structure_eqI:
  "map fst a = map fst b \<Longrightarrow> distinct (map fst a) \<Longrightarrow>
   (\<forall>k \<in> set (map fst a). dim_vv a k = dim_vv b k) \<Longrightarrow> structure a = structure b"
proof (induction a arbitrary: b)
  case Nil
  then show ?case by (simp add: structure_def)
next
  case (Cons p a)
  from Cons.prems(1) obtain q b' where b: "b = q # b'" and pq: "fst p = fst q"
    and keys: "map fst a = map fst b'"
    by (cases b) auto
  from Cons.prems(2) have fresh: "fst p \<notin> set (map fst a)" and dist: "distinct (map fst a)"
    by simp_all
  from Cons.prems(3) b pq have len: "length (snd p) = length (snd q)"
    by (simp add: dim_vv_Cons)
  have "\<forall>k \<in> set (map fst a). dim_vv a k = dim_vv b' k"
  proof
    fix k assume k: "k \<in> set (map fst a)"
    with fresh have "k \<noteq> fst p" by blast
    moreover from Cons.prems(3) k have "dim_vv (p # a) k = dim_vv b k"
      by auto
    ultimately show "dim_vv a k = dim_vv b' k"
      using b pq by (simp add: dim_vv_Cons)
  qed
  with Cons.IH [OF keys dist] have "structure a = structure b'" .
  with b pq len show ?case by (simp add: structure_def)
qed

lemma dim_vv_structure:
  "dim_vv vs k = (case map_of (structure vs) k of None \<Rightarrow> Inl out_of_range | Some n \<Rightarrow> Inr n)"
  by (induction vs) (auto simp: structure_def dim_vv_def at_vv_def find_vv_def)

lemma hasSameStructure_iff:
  assumes "invar a" "invar b"
  shows "hasSameStructure a b =
    (set (map fst a) = set (map fst b) \<and> (\<forall>k \<in> set (map fst a). dim_vv a k = dim_vv b k))"
proof
  assume h: "hasSameStructure a b"
  then have "map fst (structure a) = map fst (structure b)"
    by (simp add: hasSameStructure_def)
  then have "map fst a = map fst b"
    by (simp add: structure_def comp_def)
  with h show "set (map fst a) = set (map fst b) \<and> (\<forall>k \<in> set (map fst a). dim_vv a k = dim_vv b k)"
    by (simp add: dim_vv_structure hasSameStructure_def)
next
  assume h: "set (map fst a) = set (map fst b) \<and> (\<forall>k \<in> set (map fst a). dim_vv a k = dim_vv b k)"
  have sa: "sorted_wrt (<) (map fst a)" and sb: "sorted_wrt (<) (map fst b)"
    using assms by (simp_all add: invar_def)
  from h have k: "map fst a = map fst b"
    using strict_sorted_equal [OF sa sb] by auto
  from sa have "distinct (map fst a)"
    by (simp add: strict_sorted_iff)
  with k h have "structure a = structure b"
    by (intro structure_eqI) simp_all
  then show "hasSameStructure a b"
    by (simp add: hasSameStructure_def)
qed

lemma find_Zero: "find_vv (Zero a) k = map_option (\<lambda>v. replicate (length v) 0) (find_vv a k)"
  by (induction a) (auto simp: Zero_def find_vv_def)

text \<open>
  C6.  For a source \<open>other\<close> in key order, \<open>update vs other\<close> throws
  \<^verbatim>\<open>std::out_of_range\<close> exactly when some key of \<open>other\<close> is absent from \<open>vs\<close>, and
  never throws anything else; when every key of \<open>other\<close> is present it returns, the
  result has the keys of \<open>vs\<close> (none added, none removed), every key of \<open>other\<close> holds
  the block of \<open>other\<close>, and every other key holds the block it had.
\<close>

theorem update_overwrites_exactly:
  assumes "invar other"
  shows "(update vs other = Inl out_of_range) = (\<exists>k. exists other k \<and> \<not> exists vs k) \<and>
    update vs other \<noteq> Inl invalid_argument \<and>
    ((\<forall>k. exists other k \<longrightarrow> exists vs k) \<longrightarrow> (\<exists>vs'. update vs other = Inr vs')) \<and>
    (\<forall>vs'. update vs other = Inr vs' \<longrightarrow>
       map fst vs' = map fst vs \<and>
       (\<forall>k. find_vv vs' k = (if exists other k then find_vv other k else find_vv vs k)))"
proof -
  have fails: "(update vs other = Inl out_of_range) = (\<exists>k. exists other k \<and> \<not> exists vs k)"
    and never: "update vs other \<noteq> Inl invalid_argument"
    by (simp_all add: update_fails_iff)
  have succeeds: "\<exists>vs'. update vs other = Inr vs'" if "\<forall>k. exists other k \<longrightarrow> exists vs k"
  proof (cases "update vs other")
    case (Inl e)
    with that show ?thesis by (auto simp: update_fails_iff)
  next
    case (Inr vs')
    then show ?thesis by blast
  qed
  have frame: "map fst vs' = map fst vs \<and>
       (\<forall>k. find_vv vs' k = (if exists other k then find_vv other k else find_vv vs k))"
    if "update vs other = Inr vs'" for vs'
    using update_keys [OF that] update_find [OF assms that] by blast
  from fails never succeeds frame show ?thesis by blast
qed

theorem update_overwrites_exactly_witness:
  "invar [(1, [7, 8])] \<and>
   update [(0, [1, 2, 3]), (1, [4, 5])] [(1, [7, 8])] = Inr [(0, [1, 2, 3]), (1, [7, 8])] \<and>
   find_vv [(0, [1, 2, 3]), (1, [7, 8])] 0 = find_vv [(0, [1, 2, 3]), (1, [4, 5])] 0 \<and>
   find_vv [(0, [1, 2, 3]), (1, [7, 8])] 1 = find_vv [(1, [7, 8])] 1 \<and>
   invar [(2, [7])] \<and> exists [(2, [7])] 2 \<and> \<not> exists [(0, [1, 2, 3]), (1, [4, 5])] 2 \<and>
   update [(0, [1, 2, 3]), (1, [4, 5])] [(2, [7])] = Inl out_of_range"
proof -
  have i1: "invar [(1, [7, 8])]" and i2: "invar [(2, [7])]"
    by (simp_all add: invar_def)
  have e: "exists [(2, [7])] 2" "\<not> exists [(0, [1, 2, 3]), (1, [4, 5])] 2"
    by (simp_all add: exists_def find_vv_def)
  have u: "update [(0, [1, 2, 3]), (1, [4, 5])] [(1, [7, 8])] = Inr [(0, [1, 2, 3]), (1, [7, 8])]"
    by (simp add: exists_def find_vv_def assign_def)
  from update_overwrites_exactly [OF i2, of "[(0, [1, 2, 3]), (1, [4, 5])]"] e
  have f: "update [(0, [1, 2, 3]), (1, [4, 5])] [(2, [7])] = Inl out_of_range"
    by blast
  from update_overwrites_exactly [OF i1, of "[(0, [1, 2, 3]), (1, [4, 5])]"] u
  have "find_vv [(0, [1, 2, 3]), (1, [7, 8])] 0 = find_vv [(0, [1, 2, 3]), (1, [4, 5])] 0"
    and "find_vv [(0, [1, 2, 3]), (1, [7, 8])] 1 = find_vv [(1, [7, 8])] 1"
    by (simp_all add: exists_def find_vv_def)
  with i1 i2 e u f show ?thesis by blast
qed

text \<open>
  C8.  \<open>Zero a\<close> has the structure of \<open>a\<close>: the same keys, and for every key the same
  dimension (an absent key is absent in both); every block of \<open>Zero a\<close> is the all-zero
  vector of its length.
\<close>

theorem Zero_same_structure_all_zero:
  "hasSameStructure (Zero a) a \<and>
   (\<forall>k. exists (Zero a) k = exists a k \<and> dim_vv (Zero a) k = dim_vv a k) \<and>
   (\<forall>p \<in> set (Zero a). snd p = replicate (length (snd p)) 0)"
proof -
  have "structure (Zero a) = structure a"
    by (simp add: structure_def Zero_def)
  then have s: "hasSameStructure (Zero a) a"
    by (simp add: hasSameStructure_def)
  have "exists (Zero a) k = exists a k \<and> dim_vv (Zero a) k = dim_vv a k" for k
    by (cases "find_vv a k") (simp_all add: exists_def dim_vv_def at_vv_def find_Zero)
  moreover have "\<forall>p \<in> set (Zero a). snd p = replicate (length (snd p)) 0"
    by (auto simp: Zero_def)
  ultimately show ?thesis using s by blast
qed

theorem Zero_same_structure_all_zero_witness:
  "Zero [(0, [1, 2, 3]), (1, [4, 5])] = [(0, [0, 0, 0]), (1, [0, 0])] \<and>
   hasSameStructure [(0, [0, 0, 0]), (1, [0, 0])] [(0, [1, 2, 3]), (1, [4, 5])] \<and>
   dim_vv [(0, [0, 0, 0]), (1, [0, 0])] 0 = Inr 3 \<and>
   dim_vv [(0, [0, 0, 0]), (1, [0, 0])] 2 = Inl out_of_range"
proof -
  have z: "Zero [(0, [1, 2, 3]), (1, [4, 5])] = [(0, [0, 0, 0]), (1, [0, 0])]"
    by (simp add: Zero_def numeral_3_eq_3 numeral_2_eq_2)
  from Zero_same_structure_all_zero [of "[(0, [1, 2, 3]), (1, [4, 5])]"] z
  show ?thesis
    by (simp add: dim_vv_def at_vv_def find_vv_def)
qed

text \<open>
  C9.  For \<open>a\<close> and \<open>b\<close> of the same structure, \<open>add a b = add b a\<close>, and subtracting
  \<open>b\<close> from \<open>add a b\<close> gives \<open>a\<close> back, block by block and entry by entry, over exact
  arithmetic.
\<close>

theorem add_commutes_subtract_inverts:
  "hasSameStructure a b \<Longrightarrow> add a b = add b a \<and> subtract (add a b) b = a"
  using add_commute_vv [of a b] sub_add_vv [of a b] by blast

theorem add_commutes_subtract_inverts_witness:
  "hasSameStructure [(0, [1, 2, 3]), (1, [4, 5])] [(0, [1, 1, 1]), (1, [7, 8])] \<and>
   add [(0, [1, 2, 3]), (1, [4, 5])] [(0, [1, 1, 1]), (1, [7, 8])] = [(0, [2, 3, 4]), (1, [11, 13])] \<and>
   add [(0, [1, 1, 1]), (1, [7, 8])] [(0, [1, 2, 3]), (1, [4, 5])] = [(0, [2, 3, 4]), (1, [11, 13])] \<and>
   subtract [(0, [2, 3, 4]), (1, [11, 13])] [(0, [1, 1, 1]), (1, [7, 8])] = [(0, [1, 2, 3]), (1, [4, 5])]"
proof -
  have h: "hasSameStructure [(0, [1, 2, 3]), (1, [4, 5])] [(0, [1, 1, 1]), (1, [7, 8])]"
    by (simp add: hasSameStructure_def structure_def)
  have a: "add [(0, [1, 2, 3]), (1, [4, 5])] [(0, [1, 1, 1]), (1, [7, 8])] = [(0, [2, 3, 4]), (1, [11, 13])]"
    by (simp add: add_def)
  note t = add_commutes_subtract_inverts [OF h]
  from t have c: "add [(0, [1, 2, 3]), (1, [4, 5])] [(0, [1, 1, 1]), (1, [7, 8])] =
          add [(0, [1, 1, 1]), (1, [7, 8])] [(0, [1, 2, 3]), (1, [4, 5])]"
    by (rule conjunct1)
  from t have s: "subtract (add [(0, [1, 2, 3]), (1, [4, 5])] [(0, [1, 1, 1]), (1, [7, 8])])
          [(0, [1, 1, 1]), (1, [7, 8])] = [(0, [1, 2, 3]), (1, [4, 5])]"
    by (rule conjunct2)
  have c': "add [(0, [1, 1, 1]), (1, [7, 8])] [(0, [1, 2, 3]), (1, [4, 5])] = [(0, [2, 3, 4]), (1, [11, 13])]"
    by (simp only: c [symmetric] a)
  have s': "subtract [(0, [2, 3, 4]), (1, [11, 13])] [(0, [1, 1, 1]), (1, [7, 8])] = [(0, [1, 2, 3]), (1, [4, 5])]"
    using s by (simp only: a)
  from h a c' s' show ?thesis by blast
qed

section \<open>Properties of the block matrix\<close>

lemma nth_colOffsets: "i \<le> length ds \<Longrightarrow> colOffsets a ds ! i = a + sum_list (take i ds)"
proof (induction ds arbitrary: a i)
  case Nil
  then show ?case by simp
next
  case (Cons d ds)
  then show ?case by (cases i) (auto simp: add.assoc)
qed

lemma colOffsets_nonempty: "colOffsets a ds \<noteq> []"
  by (cases ds) auto

lemma last_colOffsets: "last (colOffsets a ds) = a + sum_list ds"
  by (induction ds arbitrary: a) (auto simp: add.assoc colOffsets_nonempty)

lemma map_snd_enumerate_fun: "map (\<lambda>x. g (snd x)) (enumerate n M) = map g M"
  by (induction M arbitrary: n) auto

lemma setZero_ctor:
  "setZero (VerticalBlockMatrix_ctor dims m b uninit) =
     \<lparr>matrix = replicate m (replicate (sum_list dims + (if b then 1 else 0)) 0),
      variableColOffsets = colOffsets 0 (if b then dims @ [1] else dims)\<rparr>"
  by (simp add: VerticalBlockMatrix_ctor_def setZero_def Let_def last_colOffsets comp_def
      map_replicate_const)

lemma shape_addBlock: "map length (matrix (addBlock A i J)) = map length (matrix A)"
  by (simp add: addBlock_def Let_def case_prod_unfold comp_def map_snd_enumerate_fun)

lemma offsets_addBlock: "variableColOffsets (addBlock A i J) = variableColOffsets A"
  by (simp add: addBlock_def Let_def)

lemma shape_addJacobian: "map length (matrix (addJacobian ks kJ A)) = map length (matrix A)"
  by (simp add: addJacobian_def shape_addBlock split: option.splits)

lemma offsets_addJacobian: "variableColOffsets (addJacobian ks kJ A) = variableColOffsets A"
  by (simp add: addJacobian_def offsets_addBlock split: option.splits)

lemma shape_fold_addJacobian:
  "map length (matrix (fold (addJacobian ks) Js A)) = map length (matrix A)"
  by (induction Js arbitrary: A) (simp_all add: shape_addJacobian)

lemma offsets_fold_addJacobian:
  "variableColOffsets (fold (addJacobian ks) Js A) = variableColOffsets A"
  by (induction Js arbitrary: A) (simp_all add: offsets_addJacobian)

lemma getCol_setCol:
  assumes shape: "map length (matrix A) = replicate (length v) n"
    and inside: "variableColOffsets A ! i + c < n"
  shows "getCol (setCol A i c v) i c = v"
proof (rule nth_equalityI)
  from shape have len: "length (matrix A) = length v"
    by (metis length_map length_replicate)
  then show "length (getCol (setCol A i c v) i c) = length v"
    by (simp add: getCol_def setCol_def Let_def)
  fix r assume "r < length (getCol (setCol A i c v) i c)"
  with len have r: "r < length v" "r < length (matrix A)"
    by (simp_all add: getCol_def setCol_def Let_def)
  from shape r have "length (matrix A ! r) = n"
    by (metis nth_map nth_replicate)
  with r inside show "getCol (setCol A i c v) i c ! r = v ! r"
    by (simp add: getCol_def setCol_def Let_def nth_enumerate_eq)
qed

lemma copyBlocks_upt:
  "k \<le> n \<Longrightarrow> length H = n \<Longrightarrow>
   copyBlocks A [k..<n] H = Inr (take k H @ map (block A) [k..<n])"
proof (induction "n - k" arbitrary: k H)
  case 0
  then show ?case by simp
next
  case (Suc d)
  then have k: "k < n" and d: "d = n - Suc k" by simp_all
  have upt: "[k..<n] = k # [Suc k..<n]"
    using k by (simp add: upt_conv_Cons)
  have "copyBlocks A [Suc k..<n] (H[k := block A k]) =
          Inr (take (Suc k) (H[k := block A k]) @ map (block A) [Suc k..<n])"
    using Suc.hyps(1) [OF d] k Suc.prems by simp
  moreover have "take (Suc k) (H[k := block A k]) = take k H @ [block A k]"
    using k Suc.prems by (simp add: take_Suc_conv_app_nth)
  ultimately show ?case
    using k Suc.prems upt by simp
qed

lemma copyBlocks_all:
  "length H = n \<Longrightarrow> copyBlocks A [0..<n] H = Inr (map (block A) [0..<n])"
  using copyBlocks_upt [of 0 n H A] by simp

section \<open>Properties of ExpressionFactor\<close>

lemma foldl_add_sum_list: "foldl (+) (a::nat) xs = a + sum_list xs"
  by (induction xs arbitrary: a) (simp_all add: add.assoc)

lemma ctor_Inr_fields:
  assumes "ExpressionFactor_ctor T act (Some nm) z e = Inr f"
  shows "keys f = map fst (keyDims e)" "dimensions f = map snd (keyDims e)"
    "noiseModel f = nm" "measurement f = z" "expression f = e" "active f = act"
    "dim nm = Dim T"
  using assms
  by (auto simp: ExpressionFactor_ctor_def keysAndDims_def Let_def split: if_splits)

lemma unwhitenedError_no_buffer:
  "evaluate (expression f) x = Inr (v, Js) \<Longrightarrow>
   unwhitenedError T uninit f x None = Inr (chart_local T (measurement f) v, None)"
  by (simp add: unwhitenedError_def expr_value_def)

lemma unwhitenedError_buffer:
  assumes "length H = size_factor f" and "evaluate (expression f) x = Inr (v, Js)"
  shows "unwhitenedError T uninit f x (Some H) =
     Inr (chart_local T (measurement f) v,
          Some (map (block (fold (addJacobian (keys f)) Js
                 \<lparr>matrix = replicate (Dim T) (replicate (sum_list (dimensions f)) 0),
                  variableColOffsets = colOffsets 0 (dimensions f)\<rparr>))
               [0..<size_factor f]))"
  using copyBlocks_all [OF assms(1)] assms(2)
  by (simp add: unwhitenedError_def expr_value_jac_def setZero_ctor Let_def)

lemma unwhitenedError_throws:
  "evaluate (expression f) x = Inl err \<Longrightarrow>
   unwhitenedError T uninit f x (Some H) = Inl err \<and> unwhitenedError T uninit f x None = Inl err"
  by (simp add: unwhitenedError_def expr_value_def expr_value_jac_def Let_def)

text \<open>
  C4.  The constructor throws \<^verbatim>\<open>std::invalid_argument\<close> exactly when the noise model is
  null or its dimension differs from \<open>Dim\<close>; it throws nothing else; otherwise it returns
  a factor that stores the keys and dimensions of the expression, taken from
  \<open>keysAndDims\<close> in the constructor, with \<open>augmentedCols\<close> the sum of the dimensions
  plus one.
\<close>

theorem ExpressionFactor_ctor_fails_iff:
  "(ExpressionFactor_ctor T act nm0 z e = Inl invalid_argument) =
     (nm0 = None \<or> (\<exists>nm. nm0 = Some nm \<and> dim nm \<noteq> Dim T)) \<and>
   ExpressionFactor_ctor T act nm0 z e \<noteq> Inl out_of_range \<and>
   (\<forall>nm. nm0 = Some nm \<and> dim nm = Dim T \<longrightarrow>
      (\<exists>f. ExpressionFactor_ctor T act nm0 z e = Inr f \<and>
           (keys f, dimensions f) = keysAndDims e \<and>
           noiseModel f = nm \<and> measurement f = z \<and> expression f = e \<and>
           augmentedCols f = sum_list (dimensions f) + 1))"
  by (cases nm0) (simp_all add: ExpressionFactor_ctor_def Let_def foldl_add_sum_list)

theorem ExpressionFactor_ctor_fails_iff_witness:
  "ExpressionFactor_ctor vectorChart (\<lambda>_. True) (None :: string NoiseModel option) [1, 2] identityExpression
     = Inl invalid_argument \<and>
   ExpressionFactor_ctor vectorChart (\<lambda>_. True) (Some ((unitNoise False)\<lparr>dim := 3\<rparr>)) [1, 2] identityExpression
     = Inl invalid_argument \<and>
   (\<exists>f. ExpressionFactor_ctor vectorChart (\<lambda>_. True) (Some (unitNoise False)) [1, 2] identityExpression = Inr f \<and>
        keys f = [0] \<and> dimensions f = [2] \<and> augmentedCols f = 3)"
  using ExpressionFactor_ctor_fails_iff [of vectorChart "\<lambda>_. True" "None :: string NoiseModel option" "[1, 2]" identityExpression]
    ExpressionFactor_ctor_fails_iff [of vectorChart "\<lambda>_. True" "Some ((unitNoise False)\<lparr>dim := 3\<rparr>)" "[1, 2]" identityExpression]
    ExpressionFactor_ctor_fails_iff [of vectorChart "\<lambda>_. True" "Some (unitNoise False)" "[1, 2]" identityExpression]
  by (auto simp: vectorChart_def unitNoise_def identityExpression_def keysAndDims_def)

text \<open>
  C2.  At an assignment where \<open>active\<close> is false, \<open>linearize\<close> returns the null
  pointer: a normal return (\<open>Inr\<close>), with no JacobianFactor (\<open>None\<close>).
\<close>

theorem linearize_inactive:
  "\<not> active f x \<Longrightarrow> linearize T uninit dummy f x = Inr None"
  by (simp add: linearize_def)

theorem linearize_inactive_witness:
  "\<exists>f. ExpressionFactor_ctor vectorChart (\<lambda>x. exists x 1) (Some (unitNoise False)) [1, 2] identityExpression = Inr f \<and>
       \<not> active f [(0, [1, 2])] \<and>
       linearize vectorChart (\<lambda>_ _. 7) [9, 9] f [(0, [1, 2])] = Inr None"
proof -
  obtain f where f: "ExpressionFactor_ctor vectorChart (\<lambda>x. exists x 1) (Some (unitNoise False)) [1, 2] identityExpression = Inr f"
    by (simp add: ExpressionFactor_ctor_def vectorChart_def unitNoise_def Let_def)
  then have a: "\<not> active f [(0, [1, 2])]"
    by (auto simp: ExpressionFactor_ctor_def vectorChart_def unitNoise_def Let_def exists_def find_vv_def)
  from f a linearize_inactive [OF a] show ?thesis by blast
qed

text \<open>
  C3.  Where the factor is active and the expression evaluates, \<open>linearize\<close> returns a
  JacobianFactor over the keys of the factor.  On a constrained noise model the
  JacobianFactor carries the model that \<^verbatim>\<open>unit()\<close> of the noise model returns; on any
  other noise model it is built by the other constructor call and carries no model.
\<close>

theorem linearize_constrained_model:
  assumes "active f x" and "expr_value (expression f) x = Inr v"
  shows "\<exists>fac. linearize T uninit dummy f x = Inr (Some fac) \<and> keys fac = keys f \<and>
    (is_constrained (noiseModel f) \<longrightarrow> model fac = Some (unit (noiseModel f))) \<and>
    (\<not> is_constrained (noiseModel f) \<longrightarrow> model fac = None)"
  using assms
  by (auto simp: linearize_def expr_value_def expr_value_jac_def JacobianFactor_ctor_def Let_def
      split: sum.splits)

theorem linearize_constrained_model_witness:
  "\<exists>f g. ExpressionFactor_ctor vectorChart (\<lambda>_. True) (Some (unitNoise True)) [1, 2] identityExpression = Inr f \<and>
       ExpressionFactor_ctor vectorChart (\<lambda>_. True) (Some (unitNoise False)) [1, 2] identityExpression = Inr g \<and>
       active f [(0, [3 / 2, 5 / 2])] \<and> active g [(0, [3 / 2, 5 / 2])] \<and>
       expr_value (expression f) [(0, [3 / 2, 5 / 2])] = Inr [3 / 2, 5 / 2] \<and>
       expr_value (expression g) [(0, [3 / 2, 5 / 2])] = Inr [3 / 2, 5 / 2] \<and>
       (\<exists>fac. linearize vectorChart (\<lambda>_ _. 7) [9, 9] f [(0, [3 / 2, 5 / 2])] = Inr (Some fac) \<and>
          model fac = Some ''unit'') \<and>
       (\<exists>fac. linearize vectorChart (\<lambda>_ _. 7) [9, 9] g [(0, [3 / 2, 5 / 2])] = Inr (Some fac) \<and>
          model fac = None)"
proof -
  let ?x = "[(0, [3 / 2, 5 / 2])] :: VectorValues"
  obtain f where f: "ExpressionFactor_ctor vectorChart (\<lambda>_. True) (Some (unitNoise True)) [1, 2] identityExpression = Inr f"
    by (simp add: ExpressionFactor_ctor_def vectorChart_def unitNoise_def Let_def)
  obtain g where g: "ExpressionFactor_ctor vectorChart (\<lambda>_. True) (Some (unitNoise False)) [1, 2] identityExpression = Inr g"
    by (simp add: ExpressionFactor_ctor_def vectorChart_def unitNoise_def Let_def)
  note ff = ctor_Inr_fields [OF f] and gf = ctor_Inr_fields [OF g]
  have a: "active f ?x" "active g ?x"
    using ff(6) gf(6) by simp_all
  have v: "expr_value identityExpression ?x = Inr [3 / 2, 5 / 2]"
    by (simp add: expr_value_def identityExpression_def at_vv_def find_vv_def)
  then have vf: "expr_value (expression f) ?x = Inr [3 / 2, 5 / 2]"
    and vg: "expr_value (expression g) ?x = Inr [3 / 2, 5 / 2]"
    using ff(5) gf(5) by simp_all
  have c: "is_constrained (noiseModel f)" "\<not> is_constrained (noiseModel g)"
    "unit (noiseModel f) = ''unit''"
    using ff(3) gf(3) by (simp_all add: unitNoise_def)
  from linearize_constrained_model [OF a(1) vf, of vectorChart "\<lambda>_ _. 7" "[9, 9]"] c
  obtain fac1 where "linearize vectorChart (\<lambda>_ _. 7) [9, 9] f ?x = Inr (Some fac1)"
    "model fac1 = Some ''unit''" by auto
  moreover from linearize_constrained_model [OF a(2) vg, of vectorChart "\<lambda>_ _. 7" "[9, 9]"] c
  obtain fac2 where "linearize vectorChart (\<lambda>_ _. 7) [9, 9] g ?x = Inr (Some fac2)"
    "model fac2 = None" by auto
  ultimately show ?thesis
    using f g a vf vg by blast
qed

text \<open>
  C1.  For a constructed factor that is active at \<open>x\<close>, where the expression evaluates to
  \<open>v\<close> and the chart returns a vector of dimension \<open>Dim\<close>: \<open>linearize\<close> returns a
  JacobianFactor whose block matrix is the whitening of a matrix \<open>pre\<close> whose
  right-hand-side column is the negated residual \<open>local(z, v)\<close>; and when the whitening of
  the noise model leaves the system as it is (a unit noise model), the right-hand side of
  the returned factor is the residual returned by \<open>unwhitenedError\<close> at \<open>x\<close>, negated,
  both for the call without a Jacobian buffer and for the call with a buffer of one matrix
  per key.
\<close>

theorem linearize_rhs_negated_residual:
  assumes ctor: "ExpressionFactor_ctor T act (Some nm) z e = Inr f"
    and act: "active f x"
    and val: "expr_value e x = Inr v"
    and len: "length (chart_local T z v) = Dim T"
  shows "\<exists>pre fac.
      linearize T uninit dummy f x = Inr (Some fac) \<and>
      Ab fac = pre\<lparr>matrix := fst (WhitenSystem nm (matrix pre) dummy)\<rparr> \<and>
      getCol pre (size_factor f) 0 = map uminus (chart_local T z v) \<and>
      (WhitenSystem nm = (\<lambda>A b. (A, b)) \<longrightarrow>
         (\<exists>r. unwhitenedError T uninit f x None = Inr (r, None) \<and> getb fac = map uminus r) \<and>
         (\<forall>H. length H = size_factor f \<longrightarrow>
            (\<exists>r H'. unwhitenedError T uninit f x (Some H) = Inr (r, Some H') \<and>
               getb fac = map uminus r)))"
proof -
  note fld = ctor_Inr_fields [OF ctor]
  from val obtain Js where ev: "evaluate e x = Inr (v, Js)"
    by (auto simp: expr_value_def split: sum.splits)
  let ?mdl = "if is_constrained nm then Some (unit nm) else None"
  let ?start = "JacobianFactor_ctor (keys f) (dimensions f) (Dim T) ?mdl uninit"
  let ?A = "fold (addJacobian (keys f)) Js (setZero (Ab ?start))"
  let ?res = "chart_local T z v"
  let ?pre = "setCol ?A (size_factor f) 0 (map uminus ?res)"
  let ?fac = "?start\<lparr>Ab := ?pre\<lparr>matrix := fst (WhitenSystem nm (matrix ?pre) dummy)\<rparr>\<rparr>"
  have lin: "linearize T uninit dummy f x = Inr (Some ?fac)"
    using act ev by (simp add: linearize_def expr_value_jac_def fld Let_def)
  have Ab0: "Ab ?start = VerticalBlockMatrix_ctor (dimensions f) (Dim T) True uninit"
    by (simp add: JacobianFactor_ctor_def)
  have shape: "map length (matrix ?A) = replicate (length (map uminus ?res)) (sum_list (dimensions f) + 1)"
    by (simp add: shape_fold_addJacobian Ab0 setZero_ctor len)
  have offs: "variableColOffsets ?A = colOffsets 0 (dimensions f @ [1])"
    by (simp add: offsets_fold_addJacobian Ab0 setZero_ctor)
  have "size_factor f = length (dimensions f)"
    by (simp add: size_factor_def fld)
  then have "variableColOffsets ?A ! size_factor f = sum_list (dimensions f)"
    by (simp add: offs nth_colOffsets)
  then have inside: "variableColOffsets ?A ! size_factor f + 0 < sum_list (dimensions f) + 1"
    by simp
  have col: "getCol ?pre (size_factor f) 0 = map uminus ?res"
    using getCol_setCol [OF shape inside] .
  have uw: "unwhitenedError T uninit f x None = Inr (?res, None)"
    using unwhitenedError_no_buffer [of f x v Js T uninit] ev by (simp add: fld)
  have uwH: "\<exists>H'. unwhitenedError T uninit f x (Some H) = Inr (?res, Some H')"
    if "length H = size_factor f" for H
    using unwhitenedError_buffer [OF that, of x v Js T uninit] ev by (simp add: fld)
  have unit: "getb ?fac = map uminus ?res" if "WhitenSystem nm = (\<lambda>A b. (A, b))"
  proof -
    have "Ab ?fac = ?pre" using that by simp
    moreover have "size_factor ?fac = size_factor f"
      by (simp add: size_factor_def JacobianFactor_ctor_def)
    ultimately show ?thesis
      using col by (simp add: getb_def)
  qed
  have "Ab ?fac = ?pre\<lparr>matrix := fst (WhitenSystem nm (matrix ?pre) dummy)\<rparr>"
    by simp
  with lin col uw uwH unit show ?thesis by blast
qed

theorem linearize_rhs_negated_residual_witness:
  "\<exists>f. ExpressionFactor_ctor vectorChart (\<lambda>_. True) (Some (unitNoise False)) [1, 2] identityExpression = Inr f \<and>
       active f [(0, [3 / 2, 5 / 2])] \<and>
       expr_value identityExpression [(0, [3 / 2, 5 / 2])] = Inr [3 / 2, 5 / 2] \<and>
       length (chart_local vectorChart [1, 2] [3 / 2, 5 / 2]) = Dim vectorChart \<and>
       WhitenSystem (unitNoise False) = (\<lambda>A b. (A, b)) \<and>
       (\<exists>fac. linearize vectorChart (\<lambda>_ _. 7) [9, 9] f [(0, [3 / 2, 5 / 2])] = Inr (Some fac) \<and>
          unwhitenedError vectorChart (\<lambda>_ _. 7) f [(0, [3 / 2, 5 / 2])] None = Inr ([1 / 2, 1 / 2], None) \<and>
          getb fac = [- (1 / 2), - (1 / 2)])"
proof -
  let ?x = "[(0, [3 / 2, 5 / 2])] :: VectorValues"
  obtain f where f: "ExpressionFactor_ctor vectorChart (\<lambda>_. True) (Some (unitNoise False)) [1, 2] identityExpression = Inr f"
    by (simp add: ExpressionFactor_ctor_def vectorChart_def unitNoise_def Let_def)
  have a: "active f ?x"
    using ctor_Inr_fields(6) [OF f] by simp
  have v: "expr_value identityExpression ?x = Inr [3 / 2, 5 / 2]"
    by (simp add: expr_value_def identityExpression_def at_vv_def find_vv_def)
  have l: "length (chart_local vectorChart [1, 2] [3 / 2, 5 / 2]) = Dim vectorChart"
    by (simp add: vectorChart_def)
  have w: "WhitenSystem (unitNoise False) = (\<lambda>A b. (A, b))"
    by (simp add: unitNoise_def)
  have u: "unwhitenedError vectorChart (\<lambda>_ _. 7) f ?x None = Inr ([1 / 2, 1 / 2], None)"
    using v ctor_Inr_fields(4,5) [OF f] by (simp add: unwhitenedError_def vectorChart_def)
  from linearize_rhs_negated_residual [OF f a v l, of "\<lambda>_ _. 7" "[9, 9]"] w u
  obtain fac where "linearize vectorChart (\<lambda>_ _. 7) [9, 9] f ?x = Inr (Some fac)"
    and "getb fac = [- (1 / 2), - (1 / 2)]"
    by auto
  with f a v l w u show ?thesis by blast
qed

text \<open>
  C10.  For a buffer \<open>H\<close> with one matrix per key of the factor, \<open>unwhitenedError\<close> with
  \<open>H\<close> returns the residual (or throws the exception) that it returns without a buffer;
  and when the expression evaluates, \<open>H\<close> comes back holding, for every key, the block
  that the Jacobians of the expression add up to in a matrix of zeros, whatever the
  freshly allocated matrix held before it was zeroed.
\<close>

theorem unwhitenedError_jacobians_same_residual:
  assumes H: "length H = size_factor f"
  shows "(case unwhitenedError T uninit f x (Some H) of Inl err \<Rightarrow> Inl err | Inr r \<Rightarrow> Inr (fst r)) =
         (case unwhitenedError T uninit f x None of Inl err \<Rightarrow> Inl err | Inr r \<Rightarrow> Inr (fst r)) \<and>
    (\<forall>v Js. evaluate (expression f) x = Inr (v, Js) \<longrightarrow>
       unwhitenedError T uninit f x (Some H) =
         Inr (chart_local T (measurement f) v,
              Some (map (block (fold (addJacobian (keys f)) Js
                     \<lparr>matrix = replicate (Dim T) (replicate (sum_list (dimensions f)) 0),
                      variableColOffsets = colOffsets 0 (dimensions f)\<rparr>))
                   [0..<size_factor f])))"
proof (cases "evaluate (expression f) x")
  case (Inl err)
  with unwhitenedError_throws [OF Inl, of T uninit H] show ?thesis by simp
next
  case (Inr r)
  obtain v Js where r: "r = (v, Js)" by (cases r)
  with Inr have ev: "evaluate (expression f) x = Inr (v, Js)" by simp
  from unwhitenedError_buffer [OF H ev, of T uninit] unwhitenedError_no_buffer [OF ev, of T uninit] ev
  show ?thesis by simp
qed

theorem unwhitenedError_jacobians_same_residual_witness:
  "\<exists>f. ExpressionFactor_ctor vectorChart (\<lambda>_. True) (Some (unitNoise False)) [1, 2] identityExpression = Inr f \<and>
       length ([ [ [8, 8], [8, 8] ] ] :: Matrix list) = size_factor f \<and>
       unwhitenedError vectorChart (\<lambda>_ _. 7) f [(0, [3 / 2, 5 / 2])] (Some [ [ [8, 8], [8, 8] ] ])
         = Inr ([1 / 2, 1 / 2], Some [ [ [1, 0], [0, 1] ] ]) \<and>
       unwhitenedError vectorChart (\<lambda>_ _. 7) f [(0, [3 / 2, 5 / 2])] None
         = Inr ([1 / 2, 1 / 2], None)"
proof -
  let ?x = "[(0, [3 / 2, 5 / 2])] :: VectorValues"
  let ?H = "[ [ [8, 8], [8, 8] ] ] :: Matrix list"
  obtain f where f: "ExpressionFactor_ctor vectorChart (\<lambda>_. True) (Some (unitNoise False)) [1, 2] identityExpression = Inr f"
    by (simp add: ExpressionFactor_ctor_def vectorChart_def unitNoise_def Let_def)
  note fld = ctor_Inr_fields [OF f]
  have keys: "keys f = [0]" and dims: "dimensions f = [2]"
    using fld(1,2) by (simp_all add: identityExpression_def)
  have H: "length ?H = size_factor f"
    by (simp add: size_factor_def keys)
  have ev: "evaluate (expression f) ?x = Inr ([3 / 2, 5 / 2], [(0, [ [1, 0], [0, 1] ])])"
    by (simp add: fld(5) identityExpression_def at_vv_def find_vv_def)
  have blk: "map (block (fold (addJacobian (keys f)) [(0, [ [1, 0], [0, 1] ])]
                     \<lparr>matrix = replicate (Dim vectorChart) (replicate (sum_list (dimensions f)) 0),
                      variableColOffsets = colOffsets 0 (dimensions f)\<rparr>))
                   [0..<size_factor f] = [ [ [1, 0], [0, 1] ] ]"
    by (simp add: keys dims size_factor_def vectorChart_def addJacobian_def addBlock_def
        block_def Let_def numeral_2_eq_2)
  from unwhitenedError_jacobians_same_residual [OF H, of vectorChart "\<lambda>_ _. 7" ?x] ev blk
  have 1: "unwhitenedError vectorChart (\<lambda>_ _. 7) f ?x (Some ?H)
         = Inr ([1 / 2, 1 / 2], Some [ [ [1, 0], [0, 1] ] ])"
    by (simp add: fld(4) vectorChart_def)
  have 2: "unwhitenedError vectorChart (\<lambda>_ _. 7) f ?x None = Inr ([1 / 2, 1 / 2], None)"
    using ev by (simp add: unwhitenedError_def expr_value_def fld(4) vectorChart_def)
  from f H 1 2 show ?thesis by blast
qed

end
